theory Spec2Isabelle
  imports Main "HOL-Library.AList" "HOL-Library.Sublist"
begin

section \<open>The JavaScript values and objects the visitor works with\<close>

text \<open>
  The visitor of \<^verbatim>\<open>appsync-json-metadata-visitor.ts\<close> builds a plain JavaScript object
  and hands it to \<^verbatim>\<open>JSON.stringify\<close>. The object is modelled as what it is at run time:
  a value of \<open>jsval\<close>. An object is the list of its own enumerable properties in
  property order. \<open>JNum t\<close> is the number that prints as \<open>t\<close>; \<open>JFunction k\<close> is the built-in
  function that \<^verbatim>\<open>Object.prototype\<close> holds under the key \<open>k\<close>, and \<open>JObjectPrototype\<close>
  is \<^verbatim>\<open>Object.prototype\<close> itself.
\<close>

datatype jsval =
    JUndefined
  | JNull
  | JBool bool
  | JNum string
  | JStr string
  | JArr "jsval list"
  | JObj "(string \<times> jsval) list"
  | JFunction string
  | JObjectPrototype

text \<open>
  Every object of this module is created by an object literal or by the compiled
  \<^verbatim>\<open>enum\<close> declaration, so its prototype is \<^verbatim>\<open>Object.prototype\<close>. The properties
  that an ordinary object inherits from there: eleven functions and the accessor
  \<^verbatim>\<open>__proto__\<close>, whose getter returns the prototype.
\<close>

definition Object_prototype_functions :: "string list" where
  "Object_prototype_functions =
     [''constructor'', ''__defineGetter__'', ''__defineSetter__'', ''hasOwnProperty'',
      ''__lookupGetter__'', ''__lookupSetter__'', ''isPrototypeOf'',
      ''propertyIsEnumerable'', ''toString'', ''valueOf'', ''toLocaleString'']"

definition Object_prototype_get :: "string \<Rightarrow> jsval option" where
  "Object_prototype_get k =
     (if k = ''__proto__'' then Some JObjectPrototype
      else if k \<in> set Object_prototype_functions then Some (JFunction k)
      else None)"

text \<open>\<^verbatim>\<open>k in obj\<close>: true for an own property and for an inherited one.\<close>

definition js_in :: "(string \<times> 'a) list \<Rightarrow> string \<Rightarrow> bool" where
  "js_in obj k \<longleftrightarrow> k \<in> set (map fst obj) \<or> Object_prototype_get k \<noteq> None"

text \<open>\<^verbatim>\<open>obj[k]\<close>: the own property, else the inherited one, else \<^verbatim>\<open>undefined\<close>.\<close>

definition js_get :: "(string \<times> jsval) list \<Rightarrow> string \<Rightarrow> jsval" where
  "js_get obj k =
     (case map_of obj k of
        Some v \<Rightarrow> v
      | None \<Rightarrow> (case Object_prototype_get k of Some v \<Rightarrow> v | None \<Rightarrow> JUndefined))"

text \<open>
  Property order. The own keys of an object come out (in \<^verbatim>\<open>JSON.stringify\<close>,
  \<^verbatim>\<open>Object.entries\<close>) with the array indices first, in ascending order, then the other
  strings in the order of their creation. An array index is the canonical decimal form of
  a number below \<open>2^32 - 1\<close>.
\<close>

definition is_digit :: "char \<Rightarrow> bool" where
  "is_digit c \<longleftrightarrow> (48::nat) \<le> of_char c \<and> of_char c \<le> (57::nat)"

definition digits_value :: "string \<Rightarrow> nat" where
  "digits_value s = foldl (\<lambda>a c. 10 * a + (of_char c - (48::nat))) 0 s"

definition array_index :: "string \<Rightarrow> nat option" where
  "array_index k =
     (if k \<noteq> [] \<and> list_all is_digit k \<and> (k = ''0'' \<or> hd k \<noteq> CHR ''0'')
         \<and> digits_value k < 2 ^ 32 - 1
      then Some (digits_value k) else None)"

fun insert_index :: "nat \<Rightarrow> string \<Rightarrow> 'a \<Rightarrow> (string \<times> 'a) list \<Rightarrow> (string \<times> 'a) list" where
  "insert_index i k v [] = [(k, v)]"
| "insert_index i k v ((k', v') # ps) =
     (case array_index k' of
        Some j \<Rightarrow> if j < i then (k', v') # insert_index i k v ps else (k, v) # (k', v') # ps
      | None \<Rightarrow> (k, v) # (k', v') # ps)"

text \<open>
  \<^verbatim>\<open>obj[k] = v\<close> on an ordinary object. An existing own property keeps its place and
  takes the new value; a new one is created in property order. The key \<^verbatim>\<open>__proto__\<close>
  is the inherited accessor: its setter replaces the prototype of \<open>obj\<close> when \<open>v\<close> is
  an object and does nothing otherwise; either way it creates no own property.
\<close>

definition js_set :: "(string \<times> 'a) list \<Rightarrow> string \<Rightarrow> 'a \<Rightarrow> (string \<times> 'a) list" where
  "js_set obj k v =
     (if k = ''__proto__'' then obj
      else if k \<in> set (map fst obj) then AList.update k v obj
      else (case array_index k of
              Some i \<Rightarrow> insert_index i k v obj
            | None \<Rightarrow> obj @ [(k, v)]))"


section \<open>The data model of the base visitor\<close>

text \<open>
  Modelled from the spec: the shapes \<^verbatim>\<open>CodeGenField\<close>, \<^verbatim>\<open>CodeGenModel\<close>,
  \<^verbatim>\<open>CodeGenEnum\<close>, \<^verbatim>\<open>CodeGenDirective\<close> (declared in \<^verbatim>\<open>appsync-visitor.ts\<close>) and
  the connection info with its kinds (declared in \<^verbatim>\<open>utils/process-connections.ts\<close>) are
  not part of the sources at hand. They carry the properties that the visitor reads. A
  connection is a tagged union on its \<open>kind\<close>: the has-one and has-many connections hold
  the field on the other side, the other connections a target name.
\<close>

datatype CodeGenConnectionType = HAS_ONE | BELONGS_TO | HAS_MANY

datatype CodeGenField =
  CodeGenField (name: string) (type: string) (isList: bool) (isNullable: bool)
    (connectionInfo: "CodeGenFieldConnection option")
and CodeGenFieldConnection =
    CodeGenFieldConnectionHasOne (associatedWith: CodeGenField)
  | CodeGenFieldConnectionHasMany (associatedWith: CodeGenField)
  | CodeGenFieldConnectionBelongsTo (targetName: string)

fun kind :: "CodeGenFieldConnection \<Rightarrow> CodeGenConnectionType" where
  "kind (CodeGenFieldConnectionHasOne _) = HAS_ONE"
| "kind (CodeGenFieldConnectionHasMany _) = HAS_MANY"
| "kind (CodeGenFieldConnectionBelongsTo _) = BELONGS_TO"

text \<open>
  Modelled from the spec: the string values of the enum \<^verbatim>\<open>CodeGenConnectionType\<close>
  (the spec writes \<^verbatim>\<open>connectionType: "HAS_MANY"\<close>).
\<close>

fun CodeGenConnectionType_value :: "CodeGenConnectionType \<Rightarrow> string" where
  "CodeGenConnectionType_value HAS_ONE = ''HAS_ONE''"
| "CodeGenConnectionType_value BELONGS_TO = ''BELONGS_TO''"
| "CodeGenConnectionType_value HAS_MANY = ''HAS_MANY''"

datatype CodeGenDirective =
  CodeGenDirective (name: string) (arguments: jsval)

datatype CodeGenModel =
  CodeGenModel (name: string) (fields: "CodeGenField list")
    (directives: "CodeGenDirective list")

text \<open>
  The \<^verbatim>\<open>values\<close> of an enum (the selector is \<open>values'\<close>) are an object from converted
  names to the schema's values.
\<close>

datatype CodeGenEnum =
  CodeGenEnum (name: string) (values': "(string \<times> string) list")

text \<open>
  The registries \<^verbatim>\<open>modelMap\<close> and \<^verbatim>\<open>enumMap\<close> are objects keyed by schema name; they
  are the lists of their entries in property order (what \<^verbatim>\<open>Object.entries\<close> returns).
\<close>

type_synonym CodeGenModelMap = "(string \<times> CodeGenModel) list"
type_synonym CodeGenEnumMap = "(string \<times> CodeGenEnum) list"


section \<open>The type resolver\<close>

text \<open>The compiled \<^verbatim>\<open>enum JSONGraphQLScalarType\<close>: an object with five own properties.\<close>

definition JSONGraphQLScalarType :: "(string \<times> jsval) list" where
  "JSONGraphQLScalarType =
     [(''ID'', JStr ''ID''), (''String'', JStr ''String''), (''Int'', JStr ''Int''),
      (''Float'', JStr ''Float''), (''Boolean'', JStr ''Boolean'')]"

text \<open>
  \<^verbatim>\<open>getType\<close>, lines 183 to 192. The scalar table is asked first, with \<^verbatim>\<open>in\<close>; then the
  enum registry, with \<^verbatim>\<open>in\<close> again; what is left is a model. The second test can only
  succeed on an own key of the registry (lemma \<open>getType_enum_branch_own\<close> below), so the
  read \<^verbatim>\<open>this.enumMap[gqlType].name\<close> of an inherited property is never evaluated.
\<close>

definition getType :: "CodeGenEnumMap \<Rightarrow> string \<Rightarrow> jsval" where
  "getType enumMap gqlType =
     (if js_in JSONGraphQLScalarType gqlType then js_get JSONGraphQLScalarType gqlType
      else if js_in enumMap gqlType then
        (case map_of enumMap gqlType of
           Some e \<Rightarrow> JObj [(''enum'', JStr (CodeGenEnum.name e))]
         | None \<Rightarrow> JObj [(''enum'', JUndefined)])
      else JObj [(''model'', JStr gqlType)])"


section \<open>JSON.stringify with an indentation of four spaces\<close>

text \<open>
  \<^verbatim>\<open>JSON.stringify(value, null, 4)\<close> as ECMA-262 defines it (SerializeJSONProperty,
  QuoteJSONString, SerializeJSONObject, SerializeJSONArray), for the values of \<open>jsval\<close>.
  A property whose value is \<^verbatim>\<open>undefined\<close> or a function is left out of an object and
  is \<^verbatim>\<open>null\<close> in an array; \<^verbatim>\<open>Object.prototype\<close> has no enumerable property and prints
  as the empty object. A string is the list of its bytes in UTF-8: the characters that
  \<^verbatim>\<open>QuoteJSONString\<close> escapes are the quote, the backslash and the control characters
  below \<open>0x20\<close>, and every other byte is copied.
\<close>

definition hex_digit :: "nat \<Rightarrow> char" where
  "hex_digit n = ''0123456789abcdef'' ! (n mod 16)"

definition QuoteJSONChar :: "char \<Rightarrow> string" where
  "QuoteJSONChar c =
     (if c = CHR 0x08 then [CHR 0x5C, CHR ''b'']
      else if c = CHR 0x09 then [CHR 0x5C, CHR ''t'']
      else if c = CHR 0x0A then [CHR 0x5C, CHR ''n'']
      else if c = CHR 0x0C then [CHR 0x5C, CHR ''f'']
      else if c = CHR 0x0D then [CHR 0x5C, CHR ''r'']
      else if c = CHR 0x22 then [CHR 0x5C, CHR 0x22]
      else if c = CHR 0x5C then [CHR 0x5C, CHR 0x5C]
      else if (of_char c :: nat) < 32
        then [CHR 0x5C, CHR ''u'', CHR ''0'', CHR ''0'',
              hex_digit (of_char c div 16), hex_digit (of_char c)]
      else [c])"

definition QuoteJSONString :: "string \<Rightarrow> string" where
  "QuoteJSONString s = [CHR 0x22] @ concat (map QuoteJSONChar s) @ [CHR 0x22]"

text \<open>
  A number is carried as the text that \<^verbatim>\<open>Number::toString\<close> gives for it; the visitor
  computes with no number, it copies the numbers of directive arguments into the document.
  \<^verbatim>\<open>JSON.stringify\<close> prints that text for a finite number and \<^verbatim>\<open>null\<close> for the other
  three.
\<close>

definition Number_isFinite :: "string \<Rightarrow> bool" where
  "Number_isFinite t \<longleftrightarrow> t \<notin> set [''NaN'', ''Infinity'', ''-Infinity'']"

fun join :: "string \<Rightarrow> string list \<Rightarrow> string" where
  "join sep [] = []"
| "join sep [x] = x"
| "join sep (x # y # ys) = x @ sep @ join sep (y # ys)"

definition gap :: string where
  "gap = ''    ''"

fun SerializeJSONProperty :: "string \<Rightarrow> jsval \<Rightarrow> string option" where
  "SerializeJSONProperty indent JUndefined = None"
| "SerializeJSONProperty indent (JFunction f) = None"
| "SerializeJSONProperty indent JNull = Some ''null''"
| "SerializeJSONProperty indent (JBool b) = Some (if b then ''true'' else ''false'')"
| "SerializeJSONProperty indent (JNum t) = Some (if Number_isFinite t then t else ''null'')"
| "SerializeJSONProperty indent (JStr s) = Some (QuoteJSONString s)"
| "SerializeJSONProperty indent JObjectPrototype = Some ''{}''"
| "SerializeJSONProperty indent (JArr xs) =
     (let partial = map (\<lambda>x. case SerializeJSONProperty (indent @ gap) x of
                                 None \<Rightarrow> ''null'' | Some strP \<Rightarrow> strP) xs
      in Some (if partial = [] then ''[]''
               else ''['' @ [CHR 0x0A] @ indent @ gap
                    @ join ('','' @ [CHR 0x0A] @ indent @ gap) partial
                    @ [CHR 0x0A] @ indent @ '']''))"
| "SerializeJSONProperty indent (JObj ps) =
     (let partial = concat (map (\<lambda>p. case SerializeJSONProperty (indent @ gap) (snd p) of
                                 None \<Rightarrow> []
                               | Some strP \<Rightarrow> [QuoteJSONString (fst p) @ '': '' @ strP]) ps)
      in Some (if partial = [] then ''{}''
               else ''{'' @ [CHR 0x0A] @ indent @ gap
                    @ join ('','' @ [CHR 0x0A] @ indent @ gap) partial
                    @ [CHR 0x0A] @ indent @ ''}''))"

text \<open>
  The value of \<^verbatim>\<open>${JSON.stringify(value, null, 4)}\<close> inside a template literal: the
  text, or \<^verbatim>\<open>undefined\<close> when \<^verbatim>\<open>JSON.stringify\<close> returns no text.
\<close>

definition JSON_stringify :: "jsval \<Rightarrow> string" where
  "JSON_stringify v =
     (case SerializeJSONProperty [] v of None \<Rightarrow> ''undefined'' | Some text \<Rightarrow> text)"


section \<open>The visitor and its collaborators\<close>

text \<open>
  Modelled from the spec: the methods that the visitor inherits from
  \<^verbatim>\<open>AppSyncModelVisitor\<close> (\<^verbatim>\<open>appsync-visitor.ts\<close>, not part of the sources at hand) and
  the two library functions \<^verbatim>\<open>plural\<close> (package pluralize) and \<^verbatim>\<open>upperCaseFirst\<close>
  (package change-case). They are parameters of the model, with the signatures of
  section 6 of the spec: the naming functions, the selection of the models to emit, the
  version computed from the registries, and the connection processing, which rewrites the
  connection info of the fields in the model registry.
\<close>

record collaborators =
  getSelectedModels :: "CodeGenModelMap \<Rightarrow> CodeGenModelMap"
  getModelName :: "CodeGenModel \<Rightarrow> string"
  getEnumName :: "CodeGenEnum \<Rightarrow> string"
  getFieldName :: "CodeGenField \<Rightarrow> string"
  computeVersion :: "CodeGenModelMap \<Rightarrow> CodeGenEnumMap \<Rightarrow> string"
  processConnectionDirective :: "CodeGenModelMap \<Rightarrow> CodeGenModelMap"
  plural :: "string \<Rightarrow> string"
  upperCaseFirst :: "string \<Rightarrow> string"

record RawAppSyncModelMetadataConfig =
  metadataTarget :: "string option"

record ParsedAppSyncModelMetadataConfig =
  metadataTarget :: string

record AppSyncJSONVisitor =
  parsedConfig :: ParsedAppSyncModelMetadataConfig
  modelMap :: CodeGenModelMap
  enumMap :: CodeGenEnumMap

text \<open>
  The constructor, lines 77 to 85: \<^verbatim>\<open>rawConfig.metadataTarget || 'javascript'\<close>. The
  falsy values of the declared type \<^verbatim>\<open>string | undefined\<close> are \<^verbatim>\<open>undefined\<close> and the
  empty string. The registries are empty until the schema has been visited.
\<close>

definition AppSyncJSONVisitor_constructor :: "RawAppSyncModelMetadataConfig \<Rightarrow> AppSyncJSONVisitor" where
  "AppSyncJSONVisitor_constructor rawConfig =
     \<lparr>parsedConfig =
        \<lparr>ParsedAppSyncModelMetadataConfig.metadataTarget =
           (case RawAppSyncModelMetadataConfig.metadataTarget rawConfig of
              None \<Rightarrow> ''javascript''
            | Some t \<Rightarrow> if t = [] then ''javascript'' else t)\<rparr>,
      modelMap = [], enumMap = []\<rparr>"


section \<open>The metadata document\<close>

text \<open>\<^verbatim>\<open>generateFieldAttributes\<close>, lines 160 to 174.\<close>

definition generateFieldAttributes :: "'a collaborators_scheme \<Rightarrow> CodeGenField \<Rightarrow> jsval list" where
  "generateFieldAttributes ext field =
     (case connectionInfo field of
        None \<Rightarrow> []
      | Some connection \<Rightarrow>
          (let connectionAttribute =
                 [(''connectionType'', JStr (CodeGenConnectionType_value (kind connection)))];
               connectionAttribute' =
                 (if kind connection = HAS_MANY \<or> kind connection = HAS_ONE
                  then js_set connectionAttribute ''associatedWith''
                         (JStr (getFieldName ext (associatedWith connection)))
                  else js_set connectionAttribute ''targetName''
                         (JStr (targetName connection)))
           in [JObj [(''type'', JStr ''connection''), (''properties'', JObj connectionAttribute')]]))"

text \<open>\<^verbatim>\<open>generateModelAttributes\<close>, lines 176 to 181.\<close>

definition generateModelAttributes :: "CodeGenModel \<Rightarrow> jsval list" where
  "generateModelAttributes model =
     map (\<lambda>d. JObj [(''type'', JStr (CodeGenDirective.name d)), (''properties'', arguments d)])
       (directives model)"

text \<open>\<^verbatim>\<open>pluralizeModelName\<close>, lines 194 to 196.\<close>

definition pluralizeModelName :: "'a collaborators_scheme \<Rightarrow> CodeGenModel \<Rightarrow> string" where
  "pluralizeModelName ext model = plural ext (upperCaseFirst ext (CodeGenModel.name model))"

text \<open>The object stored for one field, lines 136 to 143.\<close>

definition field_entry :: "'a collaborators_scheme \<Rightarrow> CodeGenEnumMap \<Rightarrow> CodeGenField \<Rightarrow> jsval" where
  "field_entry ext enums field =
     JObj [(''name'', JStr (getFieldName ext field)),
           (''targetName'', JStr (CodeGenField.name field)),
           (''isArray'', JBool (isList field)),
           (''type'', getType enums (type field)),
           (''isRequired'', JBool (\<not> isNullable field)),
           (''attributes'', JArr (generateFieldAttributes ext field))]"

text \<open>The \<^verbatim>\<open>reduce\<close> over the fields of a model, lines 135 to 145.\<close>

definition model_fields :: "'a collaborators_scheme \<Rightarrow> CodeGenEnumMap \<Rightarrow> CodeGenField list \<Rightarrow> (string \<times> jsval) list" where
  "model_fields ext enums fs =
     foldl (\<lambda>acc field. js_set acc (getFieldName ext field) (field_entry ext enums field)) [] fs"

text \<open>The object \<^verbatim>\<open>model\<close> built for one selected model, lines 129 to 146.\<close>

definition model_entry :: "'a collaborators_scheme \<Rightarrow> CodeGenEnumMap \<Rightarrow> CodeGenModel \<Rightarrow> jsval" where
  "model_entry ext enums obj =
     JObj [(''syncable'', JBool True),
           (''name'', JStr (getModelName ext obj)),
           (''targetName'', JStr (CodeGenModel.name obj)),
           (''pluralTargetName'', JStr (pluralizeModelName ext obj)),
           (''attributes'', JArr (generateModelAttributes obj)),
           (''fields'', JObj (model_fields ext enums (CodeGenModel.fields obj)))]"

text \<open>The object \<^verbatim>\<open>enumV\<close> built for one registered enum, lines 151 to 154.\<close>

definition enum_entry :: "string \<Rightarrow> CodeGenEnum \<Rightarrow> jsval" where
  "enum_entry name' enumObj =
     JObj [(''name'', JStr name'), (''values'', JArr (map (\<lambda>p. JStr (snd p)) (values' enumObj)))]"

text \<open>The two loops of \<^verbatim>\<open>generateMetaData\<close>: lines 128 to 148 and lines 150 to 156.\<close>

definition result_models :: "'a collaborators_scheme \<Rightarrow> AppSyncJSONVisitor \<Rightarrow> (string \<times> jsval) list" where
  "result_models ext this =
     foldl (\<lambda>models entry. js_set models (CodeGenModel.name (snd entry))
                              (model_entry ext (enumMap this) (snd entry)))
       [] (getSelectedModels ext (modelMap this))"

definition result_enums :: "'a collaborators_scheme \<Rightarrow> AppSyncJSONVisitor \<Rightarrow> (string \<times> jsval) list" where
  "result_enums ext this =
     foldl (\<lambda>enums entry. js_set enums (getEnumName ext (snd entry))
                             (enum_entry (fst entry) (snd entry)))
       [] (enumMap this)"

text \<open>\<^verbatim>\<open>generateMetaData\<close>, lines 121 to 158.\<close>

definition generateMetaData :: "'a collaborators_scheme \<Rightarrow> AppSyncJSONVisitor \<Rightarrow> jsval" where
  "generateMetaData ext this =
     JObj [(''models'', JObj (result_models ext this)),
           (''enums'', JObj (result_enums ext this)),
           (''version'', JStr (computeVersion ext (modelMap this) (enumMap this)))]"


section \<open>The three renderers and the dispatch\<close>

text \<open>\<^verbatim>\<open>generateTypeScriptMetaData\<close>, lines 98 to 103.\<close>

definition generateTypeScriptMetaData :: "'a collaborators_scheme \<Rightarrow> AppSyncJSONVisitor \<Rightarrow> string" where
  "generateTypeScriptMetaData ext this =
     (let metadatObj = generateMetaData ext this
      in join [CHR 0x0A]
           [''import { Schema } from \"@aws-amplify/datastore\";'', '''',
            ''export const schema: Schema = '' @ JSON_stringify metadatObj @ '';''])"

text \<open>\<^verbatim>\<open>generateJavaScriptMetaData\<close>, lines 105 to 110.\<close>

definition generateJavaScriptMetaData :: "'a collaborators_scheme \<Rightarrow> AppSyncJSONVisitor \<Rightarrow> string" where
  "generateJavaScriptMetaData ext this =
     (let metadatObj = generateMetaData ext this
      in join [CHR 0x0A] [''export const schema = '' @ JSON_stringify metadatObj @ '';''])"

text \<open>\<^verbatim>\<open>generateTypeDeclaration\<close>, lines 112 to 114.\<close>

definition generateTypeDeclaration :: string where
  "generateTypeDeclaration =
     join [CHR 0x0A]
       [''import { Schema } from '@aws-amplify/datastore';'', '''',
        ''export declare const schema: Schema;'']"

text \<open>\<^verbatim>\<open>generateJSONMetaData\<close>, lines 116 to 119.\<close>

definition generateJSONMetaData :: "'a collaborators_scheme \<Rightarrow> AppSyncJSONVisitor \<Rightarrow> string" where
  "generateJSONMetaData ext this = JSON_stringify (generateMetaData ext this)"

text \<open>
  \<^verbatim>\<open>generate\<close>, lines 86 to 96. The call returns the text or throws an \<^verbatim>\<open>Error\<close> with a
  message; the visitor it leaves behind has the model registry as the connection
  processing rewrote it.
\<close>

datatype error = Error string

definition generate :: "'a collaborators_scheme \<Rightarrow> AppSyncJSONVisitor \<Rightarrow> (error + string) \<times> AppSyncJSONVisitor" where
  "generate ext this0 =
     (let this = this0\<lparr>modelMap := processConnectionDirective ext (modelMap this0)\<rparr>;
          target = ParsedAppSyncModelMetadataConfig.metadataTarget (parsedConfig this)
      in (if target = ''typescript'' then Inr (generateTypeScriptMetaData ext this)
          else if target = ''javascript'' then Inr (generateJavaScriptMetaData ext this)
          else if target = ''typeDeclaration'' then Inr generateTypeDeclaration
          else Inl (Error (''Unsupported metadataTarget '' @ target
                           @ ''. Supported targets are javascript and typescript'')),
          this))"


section \<open>Reading the document\<close>

text \<open>
  The own property of an object under a key, the values of its own properties
  (\<^verbatim>\<open>Object.values\<close>), the model entries of a document and the field entries of all its
  models.
\<close>

definition own_property :: "jsval \<Rightarrow> string \<Rightarrow> jsval option" where
  "own_property v k = (case v of JObj ps \<Rightarrow> map_of ps k | _ \<Rightarrow> None)"

definition own_values :: "jsval \<Rightarrow> jsval list" where
  "own_values v = (case v of JObj ps \<Rightarrow> map snd ps | _ \<Rightarrow> [])"

definition document_models :: "jsval \<Rightarrow> jsval list" where
  "document_models doc = (case own_property doc ''models'' of Some ms \<Rightarrow> own_values ms | None \<Rightarrow> [])"

definition model_field_entries :: "jsval \<Rightarrow> jsval list" where
  "model_field_entries m = (case own_property m ''fields'' of Some fs \<Rightarrow> own_values fs | None \<Rightarrow> [])"

definition document_field_entries :: "jsval \<Rightarrow> jsval list" where
  "document_field_entries doc = concat (map model_field_entries (document_models doc))"


section \<open>Sample inputs\<close>

text \<open>
  A schema with two models and an enum, and collaborators whose display names differ from
  the schema names. The theorems below are applied to them.
\<close>

definition sample_collaborators :: collaborators where
  "sample_collaborators =
     \<lparr>getSelectedModels = (\<lambda>models. models),
      getModelName = (\<lambda>model. CodeGenModel.name model @ ''Model''),
      getEnumName = (\<lambda>enumObj. CodeGenEnum.name enumObj @ ''Enum''),
      getFieldName = (\<lambda>field. CodeGenField.name field),
      computeVersion = (\<lambda>models enums. ''3d2f1a''),
      processConnectionDirective = (\<lambda>models. models),
      plural = (\<lambda>s. s @ ''s''),
      upperCaseFirst = (\<lambda>s. case s of [] \<Rightarrow> [] | c # cs \<Rightarrow> (if c = CHR ''t'' then CHR ''T'' else c) # cs)\<rparr>"

definition sample_Todo :: CodeGenModel where
  "sample_Todo =
     CodeGenModel ''Todo''
       [CodeGenField ''id'' ''ID'' False False None,
        CodeGenField ''status'' ''Status'' False True None,
        CodeGenField ''tasks'' ''Task'' True True
          (Some (CodeGenFieldConnectionHasMany (CodeGenField ''todo'' ''Todo'' False True None)))]
       [CodeGenDirective ''model'' (JObj [])]"

definition sample_Task :: CodeGenModel where
  "sample_Task =
     CodeGenModel ''Task''
       [CodeGenField ''id'' ''ID'' False False None,
        CodeGenField ''todo'' ''Todo'' False True
          (Some (CodeGenFieldConnectionBelongsTo ''taskTodoId''))]
       [CodeGenDirective ''model'' (JObj [])]"

definition sample_Status :: CodeGenEnum where
  "sample_Status = CodeGenEnum ''Status'' [(''Open'', ''OPEN''), (''Done'', ''DONE'')]"

definition sample_visitor :: "string \<Rightarrow> AppSyncJSONVisitor" where
  "sample_visitor target =
     \<lparr>parsedConfig = \<lparr>ParsedAppSyncModelMetadataConfig.metadataTarget = target\<rparr>,
      modelMap = [(''Todo'', sample_Todo), (''Task'', sample_Task)],
      enumMap = [(''Status'', sample_Status)]\<rparr>"

text \<open>
  A registry with two enums, \<^verbatim>\<open>my_status\<close> and \<^verbatim>\<open>MyStatus\<close>, and a naming function that
  gives both the display name \<^verbatim>\<open>MyStatus\<close>.
\<close>

definition colliding_collaborators :: collaborators where
  "colliding_collaborators =
     sample_collaborators
       \<lparr>getEnumName :=
          (\<lambda>enumObj. if CodeGenEnum.name enumObj = ''my_status'' then ''MyStatus''
                      else CodeGenEnum.name enumObj)\<rparr>"

definition colliding_visitor :: AppSyncJSONVisitor where
  "colliding_visitor =
     \<lparr>parsedConfig = \<lparr>ParsedAppSyncModelMetadataConfig.metadataTarget = ''javascript''\<rparr>,
      modelMap = [],
      enumMap = [(''my_status'', CodeGenEnum ''my_status'' [(''A'', ''A'')]),
                 (''MyStatus'', CodeGenEnum ''MyStatus'' [(''B'', ''B'')])]\<rparr>"

text \<open>
  A schema with one model whose field \<^verbatim>\<open>owner\<close> has the type named \<open>t\<close>, and the
  document that is built for it, with the resolved type of that field left open.
\<close>

definition sample_Note :: "string \<Rightarrow> CodeGenModel" where
  "sample_Note t =
     CodeGenModel ''Note''
       [CodeGenField ''id'' ''ID'' False False None,
        CodeGenField ''owner'' t False True None]
       [CodeGenDirective ''model'' (JObj [])]"

definition note_visitor :: "string \<Rightarrow> string \<Rightarrow> AppSyncJSONVisitor" where
  "note_visitor target t =
     \<lparr>parsedConfig = \<lparr>ParsedAppSyncModelMetadataConfig.metadataTarget = target\<rparr>,
      modelMap = [(''Note'', sample_Note t)],
      enumMap = []\<rparr>"

definition note_document :: "jsval \<Rightarrow> jsval" where
  "note_document owner_type =
     JObj [(''models'',
            JObj [(''Note'',
                   JObj [(''syncable'', JBool True), (''name'', JStr ''NoteModel''),
                         (''targetName'', JStr ''Note''), (''pluralTargetName'', JStr ''Notes''),
                         (''attributes'',
                          JArr [JObj [(''type'', JStr ''model''), (''properties'', JObj [])]]),
                         (''fields'',
                          JObj [(''id'',
                                 JObj [(''name'', JStr ''id''), (''targetName'', JStr ''id''),
                                       (''isArray'', JBool False), (''type'', JStr ''ID''),
                                       (''isRequired'', JBool True), (''attributes'', JArr [])]),
                                (''owner'',
                                 JObj [(''name'', JStr ''owner''), (''targetName'', JStr ''owner''),
                                       (''isArray'', JBool False), (''type'', owner_type),
                                       (''isRequired'', JBool False),
                                       (''attributes'', JArr [])])])])]),
           (''enums'', JObj []),
           (''version'', JStr ''3d2f1a'')]"


section \<open>Properties of property assignment\<close>

lemma set_insert_index: "set (insert_index i k v ps) = insert (k, v) (set ps)"
  by (induction ps) (auto split: option.splits if_splits)

lemma map_of_insert_index:
  "k \<notin> fst ` set ps \<Longrightarrow> map_of (insert_index i k v ps) = (map_of ps)(k \<mapsto> v)"
proof (induction ps)
  case Nil
  then show ?case by simp
next
  case (Cons p ps)
  obtain k' v' where p: "p = (k', v')" by (cases p)
  from Cons.prems p have neq: "k \<noteq> k'" and notin: "k \<notin> fst ` set ps" by auto
  from Cons.IH [OF notin] neq p show ?case
    by (auto simp: fun_eq_iff split: option.splits)
qed

lemma map_of_append_new:
  assumes "k \<notin> fst ` set obj"
  shows "map_of (obj @ [(k, v)]) = (map_of obj)(k \<mapsto> v)"
proof -
  from assms have "map_of obj k = None" by (simp add: map_of_eq_None_iff)
  then show ?thesis
    by (auto simp: fun_eq_iff map_add_def split: option.splits)
qed

lemma map_of_js_set:
  assumes "k \<noteq> ''__proto__''"
  shows "map_of (js_set obj k v) = (map_of obj)(k \<mapsto> v)"
proof (cases "k \<in> set (map fst obj)")
  case True
  with assms show ?thesis by (simp add: js_set_def update_conv')
next
  case False
  then have notin: "k \<notin> fst ` set obj" by simp
  show ?thesis
  proof (cases "array_index k")
    case None
    with assms False have "js_set obj k v = obj @ [(k, v)]" by (simp add: js_set_def)
    then show ?thesis by (simp only: map_of_append_new [OF notin])
  next
    case (Some i)
    with assms False have "js_set obj k v = insert_index i k v obj" by (simp add: js_set_def)
    then show ?thesis by (simp only: map_of_insert_index [OF notin])
  qed
qed

lemma js_set_proto: "js_set obj ''__proto__'' v = obj"
  by (simp add: js_set_def)

lemma set_update_subset: "set (AList.update k v obj) \<subseteq> insert (k, v) (set obj)"
  by (induction obj) auto

lemma set_js_set: "set (js_set obj k v) \<subseteq> insert (k, v) (set obj)"
  using set_update_subset [of k v obj]
  by (auto simp: js_set_def set_insert_index split: option.splits)

lemma array_index_not_digit: "\<not> is_digit (hd k) \<Longrightarrow> array_index k = None"
  by (cases k) (auto simp: array_index_def)

lemma map_of_js_set_same: "k \<noteq> ''__proto__'' \<Longrightarrow> map_of (js_set obj k v) k = Some v"
  by (simp add: map_of_js_set)

lemma map_of_js_set_other: "k \<noteq> k' \<Longrightarrow> map_of (js_set obj k' v) k = map_of obj k"
  by (cases "k' = ''__proto__''") (simp_all add: js_set_proto map_of_js_set)

lemma foldl_js_set_other:
  "k \<notin> kf ` set xs \<Longrightarrow>
     map_of (foldl (\<lambda>acc x. js_set acc (kf x) (vf x)) acc xs) k = map_of acc k"
  by (induction xs arbitrary: acc) (simp_all add: map_of_js_set_other)

lemma foldl_js_set_lookup:
  "x \<in> set xs \<Longrightarrow> distinct (map kf xs) \<Longrightarrow> kf x \<noteq> ''__proto__'' \<Longrightarrow>
     map_of (foldl (\<lambda>acc x. js_set acc (kf x) (vf x)) acc xs) (kf x) = Some (vf x)"
proof (induction xs arbitrary: acc)
  case Nil
  then show ?case by simp
next
  case (Cons a xs)
  show ?case
  proof (cases "x = a")
    case True
    with Cons.prems have "kf x \<notin> kf ` set xs" by simp
    from foldl_js_set_other [OF this, where vf = vf and acc = "js_set acc (kf a) (vf a)"]
      True Cons.prems(3) show ?thesis
      by (simp add: map_of_js_set_same)
  next
    case False
    with Cons.prems have "x \<in> set xs" "distinct (map kf xs)" by simp_all
    from Cons.IH [OF this Cons.prems(3)] show ?thesis by simp
  qed
qed

lemma foldl_js_set_last:
  assumes "kf x \<notin> kf ` set after" and "kf x \<noteq> ''__proto__''"
  shows "map_of (foldl (\<lambda>acc x. js_set acc (kf x) (vf x)) acc (before @ x # after)) (kf x)
           = Some (vf x)"
proof -
  let ?f = "\<lambda>acc x. js_set acc (kf x) (vf x)"
  have "foldl ?f acc (before @ x # after)
          = foldl ?f (js_set (foldl ?f acc before) (kf x) (vf x)) after"
    by simp
  moreover
  from foldl_js_set_other
    [OF assms(1), where vf = vf and acc = "js_set (foldl ?f acc before) (kf x) (vf x)"]
  have "map_of (foldl ?f (js_set (foldl ?f acc before) (kf x) (vf x)) after) (kf x)
          = map_of (js_set (foldl ?f acc before) (kf x) (vf x)) (kf x)" .
  ultimately show ?thesis
    using assms(2) by (simp add: map_of_js_set_same)
qed

lemma foldl_js_set_entries:
  "(k, v) \<in> set (foldl (\<lambda>acc x. js_set acc (kf x) (vf x)) acc xs) \<Longrightarrow>
     (k, v) \<in> set acc \<or> (\<exists>x \<in> set xs. k = kf x \<and> v = vf x)"
proof (induction xs arbitrary: acc)
  case Nil
  then show ?case by simp
next
  case (Cons a xs)
  from Cons.prems have "(k, v) \<in> set (foldl (\<lambda>acc x. js_set acc (kf x) (vf x)) (js_set acc (kf a) (vf a)) xs)"
    by simp
  from Cons.IH [OF this] set_js_set [of acc "kf a" "vf a"] show ?case by auto
qed


section \<open>Properties of the type resolver\<close>

lemma getType_enum_branch_own:
  "\<not> js_in JSONGraphQLScalarType gqlType \<Longrightarrow> js_in enums gqlType \<Longrightarrow>
     map_of enums gqlType \<noteq> None"
  by (auto simp: js_in_def map_of_eq_None_iff)

lemma js_in_own: "map_of obj k = Some v \<Longrightarrow> js_in obj k"
  by (auto simp: js_in_def dest: map_of_SomeD intro: rev_image_eqI)

lemma scalar_tag_lookup:
  "k \<in> set [''ID'', ''String'', ''Int'', ''Float'', ''Boolean''] \<Longrightarrow>
     js_in JSONGraphQLScalarType k \<and> js_get JSONGraphQLScalarType k = JStr k"
  by (auto simp: js_in_def js_get_def JSONGraphQLScalarType_def)

text \<open>
  C1, as amended. A raw type name that is a key of the enum registry resolves to
  \<^verbatim>\<open>{enum: <name of the registered enum>}\<close> when the scalar table does not answer for
  it; a name that is one of the five scalar tags resolves to the scalar tag, whether or
  not the registry has it, because the scalar table is asked first.
\<close>

theorem getType_enum_after_scalar:
  assumes "map_of enums gqlType = Some e"
  shows "(\<not> js_in JSONGraphQLScalarType gqlType \<longrightarrow>
            getType enums gqlType = JObj [(''enum'', JStr (CodeGenEnum.name e))])
       \<and> (gqlType \<in> set [''ID'', ''String'', ''Int'', ''Float'', ''Boolean''] \<longrightarrow>
            getType enums gqlType = JStr gqlType)"
proof (intro conjI impI)
  assume "\<not> js_in JSONGraphQLScalarType gqlType"
  with assms show "getType enums gqlType = JObj [(''enum'', JStr (CodeGenEnum.name e))]"
    by (simp add: getType_def js_in_own)
next
  assume "gqlType \<in> set [''ID'', ''String'', ''Int'', ''Float'', ''Boolean'']"
  from scalar_tag_lookup [OF this] show "getType enums gqlType = JStr gqlType"
    by (simp add: getType_def)
qed

theorem getType_enum_after_scalar_witness:
  "getType [(''Status'', (CodeGenEnum ''Status'' [(''ACTIVE'', ''ACTIVE'')])),
            (''String'', (CodeGenEnum ''String'' []))] ''Status''
     = JObj [(''enum'', JStr ''Status'')]
   \<and> getType [(''Status'', (CodeGenEnum ''Status'' [(''ACTIVE'', ''ACTIVE'')])),
            (''String'', (CodeGenEnum ''String'' []))] ''String''
     = JStr ''String''"
  using getType_enum_after_scalar
      [of "[(''Status'', (CodeGenEnum ''Status'' [(''ACTIVE'', ''ACTIVE'')])),
            (''String'', (CodeGenEnum ''String'' []))]"
          "''Status''" "(CodeGenEnum ''Status'' [(''ACTIVE'', ''ACTIVE'')])"]
    getType_enum_after_scalar
      [of "[(''Status'', (CodeGenEnum ''Status'' [(''ACTIVE'', ''ACTIVE'')])),
            (''String'', (CodeGenEnum ''String'' []))]"
          "''String''" "(CodeGenEnum ''String'' [])"]
  by (simp add: js_in_def JSONGraphQLScalarType_def Object_prototype_get_def
      Object_prototype_functions_def)

text \<open>
  C1, as stated, fails: the registry has the key \<^verbatim>\<open>String\<close>, and the field type
  \<^verbatim>\<open>String\<close> resolves to the scalar tag, not to the enum form.
\<close>

theorem getType_enum_first_counterexample:
  "map_of [(''String'', (CodeGenEnum ''String'' []))] ''String''
     = Some (CodeGenEnum ''String'' [])
   \<and> getType [(''String'', (CodeGenEnum ''String'' []))] ''String''
     = JStr ''String''
   \<and> getType [(''String'', (CodeGenEnum ''String'' []))] ''String''
     \<noteq> JObj [(''enum'', JStr ''String'')]"
  by (simp add: getType_def js_in_def js_get_def JSONGraphQLScalarType_def)


section \<open>Properties of the field attributes\<close>

text \<open>
  C4. A field that carries connection info gets exactly one attribute, of type
  \<^verbatim>\<open>connection\<close>. Its properties hold the connection type and, for a has-many or a
  has-one connection, \<^verbatim>\<open>associatedWith\<close> with the display name of the field on the other
  side and no \<^verbatim>\<open>targetName\<close>; for every other connection they hold \<^verbatim>\<open>targetName\<close> with
  the stored target name and no \<^verbatim>\<open>associatedWith\<close>.
\<close>

theorem generateFieldAttributes_connection:
  assumes "connectionInfo field = Some connection"
  shows "\<exists>properties.
           generateFieldAttributes ext field
             = [JObj [(''type'', JStr ''connection''), (''properties'', JObj properties)]]
         \<and> map_of properties ''connectionType''
             = Some (JStr (CodeGenConnectionType_value (kind connection)))
         \<and> (if kind connection = HAS_MANY \<or> kind connection = HAS_ONE
            then map_of properties ''associatedWith''
                   = Some (JStr (getFieldName ext (associatedWith connection)))
                 \<and> ''targetName'' \<notin> fst ` set properties
            else map_of properties ''targetName'' = Some (JStr (targetName connection))
                 \<and> ''associatedWith'' \<notin> fst ` set properties)"
proof (cases "kind connection = HAS_MANY \<or> kind connection = HAS_ONE")
  case True
  with assms show ?thesis
    by (simp add: generateFieldAttributes_def js_set_def array_index_not_digit is_digit_def)
next
  case False
  with assms show ?thesis
    by (simp add: generateFieldAttributes_def js_set_def array_index_not_digit is_digit_def)
qed

text \<open>C4 at a has-many field and at a belongs-to field of the sample schema.\<close>

theorem generateFieldAttributes_connection_witness:
  "generateFieldAttributes sample_collaborators
     (CodeGenField ''tasks'' ''Task'' True True
        (Some (CodeGenFieldConnectionHasMany (CodeGenField ''todo'' ''Todo'' False True None))))
     = [JObj [(''type'', JStr ''connection''),
              (''properties'', JObj [(''connectionType'', JStr ''HAS_MANY''),
                                     (''associatedWith'', JStr ''todo'')])]]
   \<and> generateFieldAttributes sample_collaborators
     (CodeGenField ''todo'' ''Todo'' False True
        (Some (CodeGenFieldConnectionBelongsTo ''taskTodoId'')))
     = [JObj [(''type'', JStr ''connection''),
              (''properties'', JObj [(''connectionType'', JStr ''BELONGS_TO''),
                                     (''targetName'', JStr ''taskTodoId'')])]]"
  using generateFieldAttributes_connection
      [of "CodeGenField ''tasks'' ''Task'' True True
            (Some (CodeGenFieldConnectionHasMany (CodeGenField ''todo'' ''Todo'' False True None)))"
          "CodeGenFieldConnectionHasMany (CodeGenField ''todo'' ''Todo'' False True None)"
          sample_collaborators]
    generateFieldAttributes_connection
      [of "CodeGenField ''todo'' ''Todo'' False True
            (Some (CodeGenFieldConnectionBelongsTo ''taskTodoId''))"
          "CodeGenFieldConnectionBelongsTo ''taskTodoId''"
          sample_collaborators]
  by (simp add: generateFieldAttributes_def js_set_def array_index_not_digit is_digit_def
      sample_collaborators_def)

section \<open>Properties of the dispatch\<close>

text \<open>
  C3. \<^verbatim>\<open>generate\<close> throws exactly when the target is none of \<^verbatim>\<open>typescript\<close>,
  \<^verbatim>\<open>javascript\<close> and \<^verbatim>\<open>typeDeclaration\<close>. The message of the error then contains the
  target as it was configured, and the call returns no text.
\<close>

theorem generate_unsupported_target:
  assumes "target = ParsedAppSyncModelMetadataConfig.metadataTarget (parsedConfig this)"
  shows "((\<exists>e. fst (generate ext this) = Inl e)
            \<longleftrightarrow> target \<notin> set [''typescript'', ''javascript'', ''typeDeclaration''])
       \<and> (target \<notin> set [''typescript'', ''javascript'', ''typeDeclaration''] \<longrightarrow>
            (\<exists>message.
               fst (generate ext this) = Inl (Error message)
             \<and> message = ''Unsupported metadataTarget '' @ target
                  @ ''. Supported targets are javascript and typescript''
             \<and> sublist target message)
          \<and> (\<forall>output. fst (generate ext this) \<noteq> Inr output))"
proof -
  let ?message = "''Unsupported metadataTarget '' @ target
                    @ ''. Supported targets are javascript and typescript''"
  have named: "sublist target ?message"
    by (rule sublist_appendI)
  show ?thesis
  proof (cases "target \<in> set [''typescript'', ''javascript'', ''typeDeclaration'']")
    case True
    with assms show ?thesis
      by (auto simp: generate_def Let_def)
  next
    case False
    with assms have "fst (generate ext this) = Inl (Error ?message)"
      by (simp add: generate_def Let_def)
    with False named show ?thesis
      by simp
  qed
qed

text \<open>C3 at the target \<^verbatim>\<open>cobol\<close>, which throws, and at \<^verbatim>\<open>typeDeclaration\<close>, which does not.\<close>

theorem generate_unsupported_target_witness:
  "fst (generate sample_collaborators (sample_visitor ''cobol''))
     = Inl (Error ''Unsupported metadataTarget cobol. Supported targets are javascript and typescript'')
   \<and> sublist ''cobol''
       ''Unsupported metadataTarget cobol. Supported targets are javascript and typescript''
   \<and> (\<exists>output. fst (generate sample_collaborators (sample_visitor ''typeDeclaration'')) = Inr output)"
proof -
  have cobol: "ParsedAppSyncModelMetadataConfig.metadataTarget (parsedConfig (sample_visitor ''cobol''))
                 = ''cobol''"
    and decl: "ParsedAppSyncModelMetadataConfig.metadataTarget
                 (parsedConfig (sample_visitor ''typeDeclaration'')) = ''typeDeclaration''"
    by (simp_all add: sample_visitor_def)
  from generate_unsupported_target [of "''cobol''" "sample_visitor ''cobol''" sample_collaborators]
  have "fst (generate sample_collaborators (sample_visitor ''cobol''))
          = Inl (Error ''Unsupported metadataTarget cobol. Supported targets are javascript and typescript'')
        \<and> sublist ''cobol''
            ''Unsupported metadataTarget cobol. Supported targets are javascript and typescript''"
    by (simp add: cobol)
  moreover
  from generate_unsupported_target
    [of "''typeDeclaration''" "sample_visitor ''typeDeclaration''" sample_collaborators]
  have "\<not> (\<exists>e. fst (generate sample_collaborators (sample_visitor ''typeDeclaration'')) = Inl e)"
    by (simp add: decl)
  then have "\<exists>output. fst (generate sample_collaborators (sample_visitor ''typeDeclaration'')) = Inr output"
    by (cases "fst (generate sample_collaborators (sample_visitor ''typeDeclaration''))") auto
  ultimately show ?thesis by blast
qed

text \<open>
  C8. For the target \<^verbatim>\<open>typeDeclaration\<close> the text that \<^verbatim>\<open>generate\<close> returns is three
  fixed lines: the import of the \<^verbatim>\<open>Schema\<close> type, an empty line and the declaration of
  \<^verbatim>\<open>schema\<close>. The right-hand side mentions neither the registries nor the collaborators,
  so the text is the same for all of them.
\<close>

theorem generate_typeDeclaration_fixed:
  assumes "ParsedAppSyncModelMetadataConfig.metadataTarget (parsedConfig this) = ''typeDeclaration''"
  shows "fst (generate ext this)
           = Inr (''import { Schema } from '@aws-amplify/datastore';'' @ [CHR 0x0A]
                  @ '''' @ [CHR 0x0A]
                  @ ''export declare const schema: Schema;'')"
  using assms by (simp add: generate_def Let_def generateTypeDeclaration_def)

text \<open>C8 at the sample schema and at the same visitor with empty registries.\<close>

theorem generate_typeDeclaration_fixed_witness:
  "fst (generate sample_collaborators (sample_visitor ''typeDeclaration''))
     = Inr (''import { Schema } from '@aws-amplify/datastore';'' @ [CHR 0x0A]
            @ '''' @ [CHR 0x0A]
            @ ''export declare const schema: Schema;'')
   \<and> fst (generate sample_collaborators
          ((sample_visitor ''typeDeclaration'')\<lparr>modelMap := [], enumMap := []\<rparr>))
     = fst (generate sample_collaborators (sample_visitor ''typeDeclaration''))"
  using generate_typeDeclaration_fixed [of "sample_visitor ''typeDeclaration''" sample_collaborators]
    generate_typeDeclaration_fixed
      [of "(sample_visitor ''typeDeclaration'')\<lparr>modelMap := [], enumMap := []\<rparr>" sample_collaborators]
  by (simp add: sample_visitor_def)

text \<open>
  C9. When the option \<^verbatim>\<open>metadataTarget\<close> of the raw configuration is unset or the empty
  string, the constructor stores \<^verbatim>\<open>javascript\<close>, and \<^verbatim>\<open>generate\<close> returns the output of
  \<^verbatim>\<open>generateJavaScriptMetaData\<close> and does not throw.
\<close>

theorem generate_falsy_target_is_javascript:
  assumes "RawAppSyncModelMetadataConfig.metadataTarget rawConfig = None
           \<or> RawAppSyncModelMetadataConfig.metadataTarget rawConfig = Some ''''"
    and "parsedConfig this = parsedConfig (AppSyncJSONVisitor_constructor rawConfig)"
  shows "ParsedAppSyncModelMetadataConfig.metadataTarget (parsedConfig this) = ''javascript''
       \<and> fst (generate ext this)
           = Inr (generateJavaScriptMetaData ext
                    (this\<lparr>modelMap := processConnectionDirective ext (modelMap this)\<rparr>))
       \<and> (\<forall>e. fst (generate ext this) \<noteq> Inl e)"
  using assms by (auto simp: generate_def Let_def AppSyncJSONVisitor_constructor_def)

text \<open>C9 at the empty string, with the text that is emitted, and at the unset option.\<close>

theorem generate_falsy_target_is_javascript_witness:
  "fst (generate sample_collaborators
          ((AppSyncJSONVisitor_constructor \<lparr>RawAppSyncModelMetadataConfig.metadataTarget = Some ''''\<rparr>)
             \<lparr>modelMap := [], enumMap := [(''Status'', sample_Status)]\<rparr>))
     = Inr (''export const schema = {'' @ [CHR 0x0A]
            @ ''    \"models\": {},'' @ [CHR 0x0A]
            @ ''    \"enums\": {'' @ [CHR 0x0A]
            @ ''        \"StatusEnum\": {'' @ [CHR 0x0A]
            @ ''            \"name\": \"Status\",'' @ [CHR 0x0A]
            @ ''            \"values\": ['' @ [CHR 0x0A]
            @ ''                \"OPEN\",'' @ [CHR 0x0A]
            @ ''                \"DONE\"'' @ [CHR 0x0A]
            @ ''            ]'' @ [CHR 0x0A]
            @ ''        }'' @ [CHR 0x0A]
            @ ''    },'' @ [CHR 0x0A]
            @ ''    \"version\": \"3d2f1a\"'' @ [CHR 0x0A]
            @ ''};'')
   \<and> fst (generate sample_collaborators
          ((AppSyncJSONVisitor_constructor \<lparr>RawAppSyncModelMetadataConfig.metadataTarget = None\<rparr>)
             \<lparr>modelMap := [], enumMap := [(''Status'', sample_Status)]\<rparr>))
     = fst (generate sample_collaborators
          ((AppSyncJSONVisitor_constructor \<lparr>RawAppSyncModelMetadataConfig.metadataTarget = Some ''''\<rparr>)
             \<lparr>modelMap := [], enumMap := [(''Status'', sample_Status)]\<rparr>))"
  using generate_falsy_target_is_javascript
      [of "\<lparr>RawAppSyncModelMetadataConfig.metadataTarget = Some ''''\<rparr>"
          "(AppSyncJSONVisitor_constructor \<lparr>RawAppSyncModelMetadataConfig.metadataTarget = Some ''''\<rparr>)
             \<lparr>modelMap := [], enumMap := [(''Status'', sample_Status)]\<rparr>"
          sample_collaborators]
    generate_falsy_target_is_javascript
      [of "\<lparr>RawAppSyncModelMetadataConfig.metadataTarget = None\<rparr>"
          "(AppSyncJSONVisitor_constructor \<lparr>RawAppSyncModelMetadataConfig.metadataTarget = None\<rparr>)
             \<lparr>modelMap := [], enumMap := [(''Status'', sample_Status)]\<rparr>"
          sample_collaborators]
  by (simp add: AppSyncJSONVisitor_constructor_def sample_collaborators_def sample_Status_def
      generateJavaScriptMetaData_def generateMetaData_def result_models_def result_enums_def
      enum_entry_def JSON_stringify_def gap_def QuoteJSONString_def QuoteJSONChar_def
      js_set_def array_index_not_digit is_digit_def)

section \<open>Properties of the metadata document\<close>

lemma own_property_JObj: "own_property (JObj ps) k = map_of ps k"
  by (simp add: own_property_def)

lemma document_models_property:
  "own_property (generateMetaData ext this) ''models'' = Some (JObj (result_models ext this))"
  by (simp add: generateMetaData_def own_property_def)

lemma document_enums_property:
  "own_property (generateMetaData ext this) ''enums'' = Some (JObj (result_enums ext this))"
  by (simp add: generateMetaData_def own_property_def)

lemma result_models_lookup:
  assumes "entry \<in> set (getSelectedModels ext (modelMap this))"
    and "distinct (map (\<lambda>entry. CodeGenModel.name (snd entry)) (getSelectedModels ext (modelMap this)))"
    and "CodeGenModel.name (snd entry) \<noteq> ''__proto__''"
  shows "map_of (result_models ext this) (CodeGenModel.name (snd entry))
           = Some (model_entry ext (enumMap this) (snd entry))"
  unfolding result_models_def
  using foldl_js_set_lookup
    [where kf = "\<lambda>entry. CodeGenModel.name (snd entry)"
       and vf = "\<lambda>entry. model_entry ext (enumMap this) (snd entry)",
     OF assms]
  by simp

lemma result_enums_lookup:
  assumes "entry \<in> set (enumMap this)"
    and "distinct (map (\<lambda>entry. getEnumName ext (snd entry)) (enumMap this))"
    and "getEnumName ext (snd entry) \<noteq> ''__proto__''"
  shows "map_of (result_enums ext this) (getEnumName ext (snd entry))
           = Some (enum_entry (fst entry) (snd entry))"
  unfolding result_enums_def
  using foldl_js_set_lookup
    [where kf = "\<lambda>entry. getEnumName ext (snd entry)"
       and vf = "\<lambda>entry. enum_entry (fst entry) (snd entry)",
     OF assms]
  by simp

lemma result_enums_last:
  assumes "enumMap this = before @ (key, enumObj) # after"
    and "getEnumName ext enumObj \<notin> (\<lambda>entry. getEnumName ext (snd entry)) ` set after"
    and "getEnumName ext enumObj \<noteq> ''__proto__''"
  shows "map_of (result_enums ext this) (getEnumName ext enumObj) = Some (enum_entry key enumObj)"
  unfolding result_enums_def assms(1)
  using foldl_js_set_last
    [where kf = "\<lambda>entry. getEnumName ext (snd entry)"
       and vf = "\<lambda>entry. enum_entry (fst entry) (snd entry)"
       and x = "(key, enumObj)" and after = after and before = before and acc = "[]"]
    assms(2,3)
  by simp

lemma result_enums_entries:
  assumes "(k, e) \<in> set (result_enums ext this)"
  shows "\<exists>entry \<in> set (enumMap this).
           k = getEnumName ext (snd entry) \<and> e = enum_entry (fst entry) (snd entry)"
  using foldl_js_set_entries
    [where kf = "\<lambda>entry. getEnumName ext (snd entry)"
       and vf = "\<lambda>entry. enum_entry (fst entry) (snd entry)"
       and acc = "[]" and xs = "enumMap this" and k = k and v = e]
    assms
  by (simp add: result_enums_def)

lemma model_entry_names:
  "own_property (model_entry ext enums obj) ''name'' = Some (JStr (getModelName ext obj))"
  "own_property (model_entry ext enums obj) ''targetName'' = Some (JStr (CodeGenModel.name obj))"
  "own_property (model_entry ext enums obj) ''pluralTargetName''
     = Some (JStr (plural ext (upperCaseFirst ext (CodeGenModel.name obj))))"
  by (simp_all add: model_entry_def own_property_def pluralizeModelName_def)

lemma result_models_entries:
  assumes "(k, m) \<in> set (result_models ext this)"
  shows "\<exists>entry \<in> set (getSelectedModels ext (modelMap this)).
           k = CodeGenModel.name (snd entry) \<and> m = model_entry ext (enumMap this) (snd entry)"
  using foldl_js_set_entries
    [where kf = "\<lambda>entry. CodeGenModel.name (snd entry)"
       and vf = "\<lambda>entry. model_entry ext (enumMap this) (snd entry)"
       and acc = "[]" and xs = "getSelectedModels ext (modelMap this)" and k = k and v = m]
    assms
  by (simp add: result_models_def)

lemma model_fields_entries:
  assumes "(k, e) \<in> set (model_fields ext enums fs)"
  shows "\<exists>field \<in> set fs. k = getFieldName ext field \<and> e = field_entry ext enums field"
  using foldl_js_set_entries
    [where kf = "getFieldName ext" and vf = "field_entry ext enums"
       and acc = "[]" and xs = fs and k = k and v = e]
    assms
  by (simp add: model_fields_def)

lemma document_models_generateMetaData:
  "document_models (generateMetaData ext this) = map snd (result_models ext this)"
  by (simp add: document_models_def document_models_property own_values_def)

lemma model_field_entries_model_entry:
  "model_field_entries (model_entry ext enums obj)
     = map snd (model_fields ext enums (CodeGenModel.fields obj))"
  by (simp add: model_field_entries_def model_entry_def own_property_def own_values_def)

lemma document_field_entries_origin:
  assumes "e \<in> set (document_field_entries (generateMetaData ext this))"
  shows "\<exists>entry \<in> set (getSelectedModels ext (modelMap this)).
           \<exists>field \<in> set (CodeGenModel.fields (snd entry)).
             e = field_entry ext (enumMap this) field"
proof -
  from assms obtain k m
    where m: "(k, m) \<in> set (result_models ext this)"
      and e: "e \<in> set (model_field_entries m)"
    unfolding document_field_entries_def document_models_generateMetaData
    by auto
  from result_models_entries [OF m] obtain entry
    where entry: "entry \<in> set (getSelectedModels ext (modelMap this))"
      and m_eq: "m = model_entry ext (enumMap this) (snd entry)"
    by auto
  from e obtain fk
    where "(fk, e) \<in> set (model_fields ext (enumMap this) (CodeGenModel.fields (snd entry)))"
    unfolding m_eq model_field_entries_model_entry by auto
  from model_fields_entries [OF this] entry show ?thesis
    by auto
qed

lemma field_entry_attributes:
  "own_property (field_entry ext enums field) ''attributes''
     = Some (JArr (generateFieldAttributes ext field))"
  by (simp add: field_entry_def own_property_def)

lemma generateFieldAttributes_no_connection:
  "connectionInfo field = None \<Longrightarrow> generateFieldAttributes ext field = []"
  by (simp add: generateFieldAttributes_def)

lemma sample_result_models:
  "result_models sample_collaborators (sample_visitor target)
     = [(''Todo'', model_entry sample_collaborators [(''Status'', sample_Status)] sample_Todo),
        (''Task'', model_entry sample_collaborators [(''Status'', sample_Status)] sample_Task)]"
  by (simp add: result_models_def sample_collaborators_def sample_visitor_def
      sample_Todo_def sample_Task_def js_set_def array_index_not_digit is_digit_def)

lemma sample_model_fields:
  "model_fields sample_collaborators enums (CodeGenModel.fields sample_Todo)
     = map (\<lambda>field. (CodeGenField.name field, field_entry sample_collaborators enums field))
         (CodeGenModel.fields sample_Todo)"
  "model_fields sample_collaborators enums (CodeGenModel.fields sample_Task)
     = map (\<lambda>field. (CodeGenField.name field, field_entry sample_collaborators enums field))
         (CodeGenModel.fields sample_Task)"
  by (simp_all add: model_fields_def sample_collaborators_def sample_Todo_def sample_Task_def
      js_set_def array_index_not_digit is_digit_def)

lemma sample_document_field_entries:
  "document_field_entries (generateMetaData sample_collaborators (sample_visitor target))
     = map (field_entry sample_collaborators [(''Status'', sample_Status)])
         (CodeGenModel.fields sample_Todo @ CodeGenModel.fields sample_Task)"
  unfolding document_field_entries_def document_models_generateMetaData sample_result_models
  by (simp add: model_field_entries_model_entry sample_model_fields comp_def)

text \<open>
  C5. The models mapping of the document is the object that the first loop fills. Each of
  its entries is keyed by the schema name of a selected model and is the entry built from
  that model, in which \<^verbatim>\<open>name\<close> is the display name of the model. A selected model has
  its entry in the mapping, under its schema name, when no other selected model has that
  schema name (the type names of a schema are unique) and the name is not the reserved
  key \<^verbatim>\<open>__proto__\<close>.
\<close>

theorem models_keyed_by_schema_name:
  "own_property (generateMetaData ext this) ''models'' = Some (JObj (result_models ext this))
   \<and> (\<forall>(k, m) \<in> set (result_models ext this).
        \<exists>obj \<in> snd ` set (getSelectedModels ext (modelMap this)).
          k = CodeGenModel.name obj
        \<and> m = model_entry ext (enumMap this) obj
        \<and> own_property m ''name'' = Some (JStr (getModelName ext obj)))
   \<and> ((key, obj) \<in> set (getSelectedModels ext (modelMap this))
        \<and> distinct (map (\<lambda>entry. CodeGenModel.name (snd entry))
             (getSelectedModels ext (modelMap this)))
        \<and> CodeGenModel.name obj \<noteq> ''__proto__'' \<longrightarrow>
      map_of (result_models ext this) (CodeGenModel.name obj)
        = Some (model_entry ext (enumMap this) obj)
      \<and> own_property (model_entry ext (enumMap this) obj) ''name''
        = Some (JStr (getModelName ext obj)))"
proof (intro conjI impI ballI)
  show "own_property (generateMetaData ext this) ''models'' = Some (JObj (result_models ext this))"
    by (rule document_models_property)
next
  fix entry
  assume "entry \<in> set (result_models ext this)"
  then have "(fst entry, snd entry) \<in> set (result_models ext this)" by simp
  from result_models_entries [OF this]
  show "case entry of (k, m) \<Rightarrow>
          \<exists>obj \<in> snd ` set (getSelectedModels ext (modelMap this)).
            k = CodeGenModel.name obj
          \<and> m = model_entry ext (enumMap this) obj
          \<and> own_property m ''name'' = Some (JStr (getModelName ext obj))"
    by (cases entry) (auto simp: model_entry_names)
next
  assume "(key, obj) \<in> set (getSelectedModels ext (modelMap this))
        \<and> distinct (map (\<lambda>entry. CodeGenModel.name (snd entry))
             (getSelectedModels ext (modelMap this)))
        \<and> CodeGenModel.name obj \<noteq> ''__proto__''"
  with result_models_lookup [of "(key, obj)" ext this]
  show "map_of (result_models ext this) (CodeGenModel.name obj)
        = Some (model_entry ext (enumMap this) obj)"
    by simp
next
  show "own_property (model_entry ext (enumMap this) obj) ''name''
        = Some (JStr (getModelName ext obj))"
    by (rule model_entry_names)
qed

text \<open>
  C5 at the sample schema: the mapping has two entries; the one of the model \<^verbatim>\<open>Task\<close>,
  whose display name is \<^verbatim>\<open>TaskModel\<close>, is found under \<^verbatim>\<open>Task\<close>, and nothing is found
  under \<^verbatim>\<open>TaskModel\<close>.
\<close>

theorem models_keyed_by_schema_name_witness:
  "result_models sample_collaborators (sample_visitor ''javascript'')
     = [(''Todo'', model_entry sample_collaborators [(''Status'', sample_Status)] sample_Todo),
        (''Task'', model_entry sample_collaborators [(''Status'', sample_Status)] sample_Task)]
   \<and> map_of (result_models sample_collaborators (sample_visitor ''javascript'')) ''Task''
     = Some (model_entry sample_collaborators [(''Status'', sample_Status)] sample_Task)
   \<and> own_property (model_entry sample_collaborators [(''Status'', sample_Status)] sample_Task) ''name''
     = Some (JStr ''TaskModel'')
   \<and> map_of (result_models sample_collaborators (sample_visitor ''javascript'')) ''TaskModel''
     = None"
proof -
  have "(''Task'', sample_Task)
          \<in> set (getSelectedModels sample_collaborators (modelMap (sample_visitor ''javascript'')))
      \<and> distinct (map (\<lambda>entry. CodeGenModel.name (snd entry))
           (getSelectedModels sample_collaborators (modelMap (sample_visitor ''javascript''))))
      \<and> CodeGenModel.name sample_Task \<noteq> ''__proto__''"
    by (simp add: sample_collaborators_def sample_visitor_def sample_Todo_def sample_Task_def)
  with models_keyed_by_schema_name
    [of sample_collaborators "sample_visitor ''javascript''" "''Task''" sample_Task]
  have "map_of (result_models sample_collaborators (sample_visitor ''javascript''))
          (CodeGenModel.name sample_Task)
          = Some (model_entry sample_collaborators (enumMap (sample_visitor ''javascript'')) sample_Task)
      \<and> own_property (model_entry sample_collaborators (enumMap (sample_visitor ''javascript''))
           sample_Task) ''name''
          = Some (JStr (getModelName sample_collaborators sample_Task))"
    by blast
  moreover have "CodeGenModel.name sample_Task = ''Task''"
    and "getModelName sample_collaborators sample_Task = ''TaskModel''"
    and "enumMap (sample_visitor ''javascript'') = [(''Status'', sample_Status)]"
    by (simp_all add: sample_collaborators_def sample_visitor_def sample_Task_def)
  ultimately show ?thesis
    by (simp add: sample_result_models)
qed

text \<open>
  C6, as amended. The enums mapping of the document is the object that the second loop
  fills. Each of its entries is keyed by the display name of a registered enum; its
  \<^verbatim>\<open>name\<close> is the key of that enum in the registry and its \<^verbatim>\<open>values\<close> are the values of
  the enum in their order. A registered enum has its entry in the mapping, under its
  display name, when no enum registered after it has that display name and the display
  name is not the reserved key \<^verbatim>\<open>__proto__\<close>; so every registered enum has its entry when
  the display names are pairwise different and none is \<^verbatim>\<open>__proto__\<close>.
\<close>

theorem enums_keyed_by_display_name:
  "own_property (generateMetaData ext this) ''enums'' = Some (JObj (result_enums ext this))
   \<and> (\<forall>(k, e) \<in> set (result_enums ext this).
        \<exists>(key, enumObj) \<in> set (enumMap this).
          k = getEnumName ext enumObj
        \<and> e = JObj [(''name'', JStr key),
                    (''values'', JArr (map (\<lambda>p. JStr (snd p)) (values' enumObj)))])
   \<and> (enumMap this = before @ (key, enumObj) # after
        \<and> getEnumName ext enumObj \<notin> (\<lambda>entry. getEnumName ext (snd entry)) ` set after
        \<and> getEnumName ext enumObj \<noteq> ''__proto__'' \<longrightarrow>
      map_of (result_enums ext this) (getEnumName ext enumObj)
        = Some (JObj [(''name'', JStr key),
                      (''values'', JArr (map (\<lambda>p. JStr (snd p)) (values' enumObj)))]))
   \<and> ((key, enumObj) \<in> set (enumMap this)
        \<and> distinct (map (\<lambda>entry. getEnumName ext (snd entry)) (enumMap this))
        \<and> getEnumName ext enumObj \<noteq> ''__proto__'' \<longrightarrow>
      map_of (result_enums ext this) (getEnumName ext enumObj)
        = Some (JObj [(''name'', JStr key),
                      (''values'', JArr (map (\<lambda>p. JStr (snd p)) (values' enumObj)))]))"
proof (intro conjI impI ballI)
  show "own_property (generateMetaData ext this) ''enums'' = Some (JObj (result_enums ext this))"
    by (rule document_enums_property)
next
  fix entry
  assume "entry \<in> set (result_enums ext this)"
  then have "(fst entry, snd entry) \<in> set (result_enums ext this)" by simp
  from result_enums_entries [OF this]
  show "case entry of (k, e) \<Rightarrow>
          \<exists>(key, enumObj) \<in> set (enumMap this).
            k = getEnumName ext enumObj
          \<and> e = JObj [(''name'', JStr key),
                      (''values'', JArr (map (\<lambda>p. JStr (snd p)) (values' enumObj)))]"
    by (cases entry) (auto simp: enum_entry_def)
next
  assume "enumMap this = before @ (key, enumObj) # after
        \<and> getEnumName ext enumObj \<notin> (\<lambda>entry. getEnumName ext (snd entry)) ` set after
        \<and> getEnumName ext enumObj \<noteq> ''__proto__''"
  then have "enumMap this = before @ (key, enumObj) # after"
    and "getEnumName ext enumObj \<notin> (\<lambda>entry. getEnumName ext (snd entry)) ` set after"
    and "getEnumName ext enumObj \<noteq> ''__proto__''"
    by simp_all
  from result_enums_last [OF this]
  show "map_of (result_enums ext this) (getEnumName ext enumObj)
        = Some (JObj [(''name'', JStr key),
                      (''values'', JArr (map (\<lambda>p. JStr (snd p)) (values' enumObj)))])"
    by (simp add: enum_entry_def)
next
  assume "(key, enumObj) \<in> set (enumMap this)
        \<and> distinct (map (\<lambda>entry. getEnumName ext (snd entry)) (enumMap this))
        \<and> getEnumName ext enumObj \<noteq> ''__proto__''"
  with result_enums_lookup [of "(key, enumObj)" this ext]
  show "map_of (result_enums ext this) (getEnumName ext enumObj)
        = Some (JObj [(''name'', JStr key),
                      (''values'', JArr (map (\<lambda>p. JStr (snd p)) (values' enumObj)))])"
    by (simp add: enum_entry_def)
qed

text \<open>
  C6, as amended, at the enum \<^verbatim>\<open>Status\<close> of the sample schema, whose display name is
  \<^verbatim>\<open>StatusEnum\<close>: the entry is found under \<^verbatim>\<open>StatusEnum\<close>, and nothing is found under
  \<^verbatim>\<open>Status\<close>. In the registry with two enums of one display name, the enum registered
  last has its entry.
\<close>

theorem enums_keyed_by_display_name_witness:
  "own_property (generateMetaData sample_collaborators (sample_visitor ''javascript'')) ''enums''
     = Some (JObj (result_enums sample_collaborators (sample_visitor ''javascript'')))
   \<and> map_of (result_enums sample_collaborators (sample_visitor ''javascript'')) ''StatusEnum''
     = Some (JObj [(''name'', JStr ''Status''), (''values'', JArr [JStr ''OPEN'', JStr ''DONE''])])
   \<and> map_of (result_enums sample_collaborators (sample_visitor ''javascript'')) ''Status''
     = None
   \<and> map_of (result_enums colliding_collaborators colliding_visitor) ''MyStatus''
     = Some (JObj [(''name'', JStr ''MyStatus''), (''values'', JArr [JStr ''B''])])"
proof -
  have "(''Status'', sample_Status) \<in> set (enumMap (sample_visitor ''javascript''))
      \<and> distinct (map (\<lambda>entry. getEnumName sample_collaborators (snd entry))
           (enumMap (sample_visitor ''javascript'')))
      \<and> getEnumName sample_collaborators sample_Status \<noteq> ''__proto__''"
    by (simp add: sample_collaborators_def sample_visitor_def sample_Status_def)
  with enums_keyed_by_display_name
    [of sample_collaborators "sample_visitor ''javascript''" "[]" "''Status''" sample_Status "[]"]
  have "own_property (generateMetaData sample_collaborators (sample_visitor ''javascript'')) ''enums''
          = Some (JObj (result_enums sample_collaborators (sample_visitor ''javascript'')))
      \<and> map_of (result_enums sample_collaborators (sample_visitor ''javascript''))
          (getEnumName sample_collaborators sample_Status)
          = Some (JObj [(''name'', JStr ''Status''),
                        (''values'', JArr (map (\<lambda>p. JStr (snd p)) (values' sample_Status)))])"
    by blast
  moreover have "getEnumName sample_collaborators sample_Status = ''StatusEnum''"
    and "map (\<lambda>p. JStr (snd p)) (values' sample_Status) = [JStr ''OPEN'', JStr ''DONE'']"
    by (simp_all add: sample_collaborators_def sample_Status_def)
  moreover have "map_of (result_enums sample_collaborators (sample_visitor ''javascript'')) ''Status''
      = None"
    by (simp add: result_enums_def sample_collaborators_def sample_visitor_def sample_Status_def
        js_set_def array_index_not_digit is_digit_def)
  moreover
  have "enumMap colliding_visitor
          = [(''my_status'', CodeGenEnum ''my_status'' [(''A'', ''A'')])]
            @ (''MyStatus'', CodeGenEnum ''MyStatus'' [(''B'', ''B'')]) # []
      \<and> getEnumName colliding_collaborators (CodeGenEnum ''MyStatus'' [(''B'', ''B'')])
          \<notin> (\<lambda>entry. getEnumName colliding_collaborators (snd entry)) ` set []
      \<and> getEnumName colliding_collaborators (CodeGenEnum ''MyStatus'' [(''B'', ''B'')])
          \<noteq> ''__proto__''"
    by (simp add: colliding_collaborators_def colliding_visitor_def)
  with enums_keyed_by_display_name
    [of colliding_collaborators colliding_visitor
        "[(''my_status'', CodeGenEnum ''my_status'' [(''A'', ''A'')])]"
        "''MyStatus''" "CodeGenEnum ''MyStatus'' [(''B'', ''B'')]" "[]"]
  have "map_of (result_enums colliding_collaborators colliding_visitor)
          (getEnumName colliding_collaborators (CodeGenEnum ''MyStatus'' [(''B'', ''B'')]))
          = Some (JObj [(''name'', JStr ''MyStatus''),
                        (''values'', JArr (map (\<lambda>p. JStr (snd p))
                           (values' (CodeGenEnum ''MyStatus'' [(''B'', ''B'')]))))])"
    by blast
  then have "map_of (result_enums colliding_collaborators colliding_visitor) ''MyStatus''
     = Some (JObj [(''name'', JStr ''MyStatus''), (''values'', JArr [JStr ''B''])])"
    by (simp add: colliding_collaborators_def)
  ultimately show ?thesis by simp
qed

text \<open>
  C6, as stated, fails: the enums \<^verbatim>\<open>my_status\<close> and \<^verbatim>\<open>MyStatus\<close> are both registered and
  both have the display name \<^verbatim>\<open>MyStatus\<close>. The mapping has one entry under that name, with
  the key and the values of the second enum; no entry has the name \<^verbatim>\<open>my_status\<close> and the
  values of the first.
\<close>

theorem enums_display_name_collision_counterexample:
  "enumMap colliding_visitor
     = [(''my_status'', CodeGenEnum ''my_status'' [(''A'', ''A'')]),
        (''MyStatus'', CodeGenEnum ''MyStatus'' [(''B'', ''B'')])]
   \<and> getEnumName colliding_collaborators (CodeGenEnum ''my_status'' [(''A'', ''A'')]) = ''MyStatus''
   \<and> own_property (generateMetaData colliding_collaborators colliding_visitor) ''enums''
     = Some (JObj [(''MyStatus'',
                    JObj [(''name'', JStr ''MyStatus''), (''values'', JArr [JStr ''B''])])])
   \<and> map_of (result_enums colliding_collaborators colliding_visitor) ''MyStatus''
     \<noteq> Some (JObj [(''name'', JStr ''my_status''), (''values'', JArr [JStr ''A''])])"
proof -
  have "result_enums colliding_collaborators colliding_visitor
          = [(''MyStatus'',
              JObj [(''name'', JStr ''MyStatus''), (''values'', JArr [JStr ''B''])])]"
    by (simp add: result_enums_def enum_entry_def colliding_collaborators_def
        colliding_visitor_def js_set_def array_index_not_digit is_digit_def)
  then show ?thesis
    by (simp add: document_enums_property)
      (simp add: colliding_collaborators_def colliding_visitor_def)
qed

text \<open>
  C10. Every field entry of every model of the document is the entry built from a field
  of a selected model, and it has the own property \<^verbatim>\<open>attributes\<close>: the list of the field
  attributes, which is the empty list for a field without connection info.
\<close>

theorem field_entries_have_attributes:
  assumes "e \<in> set (document_field_entries (generateMetaData ext this))"
  shows "\<exists>obj field.
           obj \<in> snd ` set (getSelectedModels ext (modelMap this))
         \<and> field \<in> set (CodeGenModel.fields obj)
         \<and> e = field_entry ext (enumMap this) field
         \<and> own_property e ''attributes'' = Some (JArr (generateFieldAttributes ext field))
         \<and> (connectionInfo field = None \<longrightarrow> own_property e ''attributes'' = Some (JArr []))"
proof -
  from document_field_entries_origin [OF assms] obtain entry field
    where "entry \<in> set (getSelectedModels ext (modelMap this))"
      and "field \<in> set (CodeGenModel.fields (snd entry))"
      and "e = field_entry ext (enumMap this) field"
    by auto
  then show ?thesis
    by (intro exI [of _ "snd entry"] exI [of _ field])
      (simp add: field_entry_attributes generateFieldAttributes_no_connection)
qed

text \<open>C10 at the field \<^verbatim>\<open>status\<close> of the sample schema, which has no connection info.\<close>

theorem field_entries_have_attributes_witness:
  "field_entry sample_collaborators [(''Status'', sample_Status)]
       (CodeGenField ''status'' ''Status'' False True None)
     \<in> set (document_field_entries
              (generateMetaData sample_collaborators (sample_visitor ''javascript'')))
   \<and> (\<exists>attributes.
         own_property
           (field_entry sample_collaborators [(''Status'', sample_Status)]
              (CodeGenField ''status'' ''Status'' False True None)) ''attributes''
           = Some (JArr attributes))
   \<and> own_property
       (field_entry sample_collaborators [(''Status'', sample_Status)]
          (CodeGenField ''status'' ''Status'' False True None)) ''attributes''
     = Some (JArr [])"
proof -
  let ?e = "field_entry sample_collaborators [(''Status'', sample_Status)]
              (CodeGenField ''status'' ''Status'' False True None)"
  have mem: "?e \<in> set (document_field_entries
                         (generateMetaData sample_collaborators (sample_visitor ''javascript'')))"
    unfolding sample_document_field_entries by (simp add: sample_Todo_def)
  from field_entries_have_attributes [OF mem]
  have "\<exists>attributes. own_property ?e ''attributes'' = Some (JArr attributes)"
    by blast
  moreover have "own_property ?e ''attributes'' = Some (JArr [])"
    by (simp add: field_entry_attributes generateFieldAttributes_no_connection)
  ultimately show ?thesis using mem by blast
qed

text \<open>
  C2, as amended. Each entry of the models mapping is built from a selected model, and
  its \<^verbatim>\<open>pluralTargetName\<close> is the plural of the first-letter-capitalized schema name of
  that model, \<^verbatim>\<open>obj.name\<close>; the display name is not used. For the entry of the model
  whose schema name is \<^verbatim>\<open>Todo\<close> it is \<^verbatim>\<open>Todos\<close>, given that \<^verbatim>\<open>upperCaseFirst\<close> leaves
  \<^verbatim>\<open>Todo\<close> as it is and \<^verbatim>\<open>plural\<close> turns it into \<^verbatim>\<open>Todos\<close>.
\<close>

theorem pluralTargetName_of_schema_name:
  "own_property (generateMetaData ext this) ''models'' = Some (JObj (result_models ext this))
   \<and> (\<forall>(k, m) \<in> set (result_models ext this).
        \<exists>obj \<in> snd ` set (getSelectedModels ext (modelMap this)).
          k = CodeGenModel.name obj
        \<and> m = model_entry ext (enumMap this) obj
        \<and> own_property m ''pluralTargetName''
            = Some (JStr (plural ext (upperCaseFirst ext (CodeGenModel.name obj)))))
   \<and> (upperCaseFirst ext ''Todo'' = ''Todo'' \<and> plural ext ''Todo'' = ''Todos''
        \<and> (''Todo'', m) \<in> set (result_models ext this) \<longrightarrow>
      own_property m ''pluralTargetName'' = Some (JStr ''Todos''))"
proof (intro conjI impI ballI)
  show "own_property (generateMetaData ext this) ''models'' = Some (JObj (result_models ext this))"
    by (rule document_models_property)
next
  fix entry
  assume "entry \<in> set (result_models ext this)"
  then have "(fst entry, snd entry) \<in> set (result_models ext this)" by simp
  from result_models_entries [OF this]
  show "case entry of (k, m) \<Rightarrow>
          \<exists>obj \<in> snd ` set (getSelectedModels ext (modelMap this)).
            k = CodeGenModel.name obj
          \<and> m = model_entry ext (enumMap this) obj
          \<and> own_property m ''pluralTargetName''
              = Some (JStr (plural ext (upperCaseFirst ext (CodeGenModel.name obj))))"
    by (cases entry) (auto simp: model_entry_names)
next
  assume todo: "upperCaseFirst ext ''Todo'' = ''Todo'' \<and> plural ext ''Todo'' = ''Todos''
        \<and> (''Todo'', m) \<in> set (result_models ext this)"
  then have "(''Todo'', m) \<in> set (result_models ext this)" by simp
  from result_models_entries [OF this] obtain entry
    where "''Todo'' = CodeGenModel.name (snd entry)"
      and "m = model_entry ext (enumMap this) (snd entry)"
    by auto
  with todo show "own_property m ''pluralTargetName'' = Some (JStr ''Todos'')"
    by (simp add: model_entry_names)
qed

text \<open>C2, as amended, at the model \<^verbatim>\<open>Todo\<close> of the sample schema.\<close>

theorem pluralTargetName_of_schema_name_witness:
  "(''Todo'', model_entry sample_collaborators [(''Status'', sample_Status)] sample_Todo)
     \<in> set (result_models sample_collaborators (sample_visitor ''javascript''))
   \<and> own_property (model_entry sample_collaborators [(''Status'', sample_Status)] sample_Todo)
       ''pluralTargetName''
     = Some (JStr ''Todos'')"
proof -
  have mem: "(''Todo'', model_entry sample_collaborators [(''Status'', sample_Status)] sample_Todo)
      \<in> set (result_models sample_collaborators (sample_visitor ''javascript''))"
    by (simp add: sample_result_models)
  moreover have "upperCaseFirst sample_collaborators ''Todo'' = ''Todo''
      \<and> plural sample_collaborators ''Todo'' = ''Todos''"
    by (simp add: sample_collaborators_def)
  ultimately show ?thesis
    using pluralTargetName_of_schema_name
      [of sample_collaborators "sample_visitor ''javascript''"
          "model_entry sample_collaborators [(''Status'', sample_Status)] sample_Todo"]
    by blast
qed

text \<open>
  C2, as stated, fails: the display name of the model \<^verbatim>\<open>Todo\<close> is \<^verbatim>\<open>TodoModel\<close>, whose
  capitalized plural is \<^verbatim>\<open>TodoModels\<close>, and the emitted \<^verbatim>\<open>pluralTargetName\<close> is
  \<^verbatim>\<open>Todos\<close>.
\<close>

theorem pluralTargetName_display_name_counterexample:
  "map_of (result_models sample_collaborators (sample_visitor ''javascript'')) ''Todo''
     = Some (model_entry sample_collaborators [(''Status'', sample_Status)] sample_Todo)
   \<and> own_property (model_entry sample_collaborators [(''Status'', sample_Status)] sample_Todo)
       ''pluralTargetName''
     = Some (JStr ''Todos'')
   \<and> getModelName sample_collaborators sample_Todo = ''TodoModel''
   \<and> plural sample_collaborators (upperCaseFirst sample_collaborators
        (getModelName sample_collaborators sample_Todo)) = ''TodoModels''"
  by (simp add: sample_result_models model_entry_names)
    (simp add: sample_collaborators_def sample_Todo_def)


section \<open>Serialization of the document\<close>

text \<open>
  A type name that is an inherited key of the scalar table, such as \<^verbatim>\<open>constructor\<close> or
  \<^verbatim>\<open>toString\<close>, passes the first test of \<^verbatim>\<open>getType\<close>; the value read from the table is
  then the function that \<^verbatim>\<open>Object.prototype\<close> holds under that key.
\<close>

lemma getType_inherited:
  "getType enums ''constructor'' = JFunction ''constructor''"
  "getType enums ''toString'' = JFunction ''toString''"
  by (simp_all add: getType_def js_in_def js_get_def JSONGraphQLScalarType_def
      Object_prototype_get_def Object_prototype_functions_def)

lemma getType_ID: "getType enums ''ID'' = JStr ''ID''"
  by (simp add: getType_def js_in_def js_get_def JSONGraphQLScalarType_def)

lemma note_visitor_document:
  "generateMetaData sample_collaborators (note_visitor target t) = note_document (getType [] t)"
  by (simp add: generateMetaData_def result_models_def result_enums_def model_entry_def
      model_fields_def field_entry_def generateModelAttributes_def pluralizeModelName_def
      generateFieldAttributes_def note_document_def getType_ID
      note_visitor_def sample_Note_def sample_collaborators_def
      js_set_def array_index_not_digit is_digit_def)

lemma note_document_text:
  "JSON_stringify (note_document (JFunction f)) =
     ''{'' @ [CHR 0x0A]
     @ ''    \"models\": {'' @ [CHR 0x0A]
     @ ''        \"Note\": {'' @ [CHR 0x0A]
     @ ''            \"syncable\": true,'' @ [CHR 0x0A]
     @ ''            \"name\": \"NoteModel\",'' @ [CHR 0x0A]
     @ ''            \"targetName\": \"Note\",'' @ [CHR 0x0A]
     @ ''            \"pluralTargetName\": \"Notes\",'' @ [CHR 0x0A]
     @ ''            \"attributes\": ['' @ [CHR 0x0A]
     @ ''                {'' @ [CHR 0x0A]
     @ ''                    \"type\": \"model\",'' @ [CHR 0x0A]
     @ ''                    \"properties\": {}'' @ [CHR 0x0A]
     @ ''                }'' @ [CHR 0x0A]
     @ ''            ],'' @ [CHR 0x0A]
     @ ''            \"fields\": {'' @ [CHR 0x0A]
     @ ''                \"id\": {'' @ [CHR 0x0A]
     @ ''                    \"name\": \"id\",'' @ [CHR 0x0A]
     @ ''                    \"targetName\": \"id\",'' @ [CHR 0x0A]
     @ ''                    \"isArray\": false,'' @ [CHR 0x0A]
     @ ''                    \"type\": \"ID\",'' @ [CHR 0x0A]
     @ ''                    \"isRequired\": true,'' @ [CHR 0x0A]
     @ ''                    \"attributes\": []'' @ [CHR 0x0A]
     @ ''                },'' @ [CHR 0x0A]
     @ ''                \"owner\": {'' @ [CHR 0x0A]
     @ ''                    \"name\": \"owner\",'' @ [CHR 0x0A]
     @ ''                    \"targetName\": \"owner\",'' @ [CHR 0x0A]
     @ ''                    \"isArray\": false,'' @ [CHR 0x0A]
     @ ''                    \"isRequired\": false,'' @ [CHR 0x0A]
     @ ''                    \"attributes\": []'' @ [CHR 0x0A]
     @ ''                }'' @ [CHR 0x0A]
     @ ''            }'' @ [CHR 0x0A]
     @ ''        }'' @ [CHR 0x0A]
     @ ''    },'' @ [CHR 0x0A]
     @ ''    \"enums\": {},'' @ [CHR 0x0A]
     @ ''    \"version\": \"3d2f1a\"'' @ [CHR 0x0A]
     @ ''}''"
  by (simp add: note_document_def JSON_stringify_def gap_def QuoteJSONString_def QuoteJSONChar_def)

text \<open>
  C7. The schema has a model \<^verbatim>\<open>Note\<close> with a field \<^verbatim>\<open>owner\<close> whose type is named
  \<^verbatim>\<open>constructor\<close>. The document built for it holds a function under \<^verbatim>\<open>type\<close>;
  \<^verbatim>\<open>JSON.stringify\<close> leaves the property out, so the emitted text is the text of a document
  without it. The schema whose field has the type \<^verbatim>\<open>toString\<close> gives another document
  and the same text, for the target \<^verbatim>\<open>javascript\<close> and for \<^verbatim>\<open>typescript\<close>.
\<close>

theorem stringify_drops_inherited_type:
  "generateMetaData sample_collaborators (note_visitor ''javascript'' ''constructor'')
     = note_document (JFunction ''constructor'')
   \<and> generateMetaData sample_collaborators (note_visitor ''javascript'' ''toString'')
     = note_document (JFunction ''toString'')
   \<and> generateMetaData sample_collaborators (note_visitor ''javascript'' ''constructor'')
     \<noteq> generateMetaData sample_collaborators (note_visitor ''javascript'' ''toString'')
   \<and> fst (generate sample_collaborators (note_visitor ''javascript'' ''constructor''))
     = fst (generate sample_collaborators (note_visitor ''javascript'' ''toString''))
   \<and> fst (generate sample_collaborators (note_visitor ''typescript'' ''constructor''))
     = fst (generate sample_collaborators (note_visitor ''typescript'' ''toString''))
   \<and> fst (generate sample_collaborators (note_visitor ''javascript'' ''constructor''))
     = Inr (''export const schema = ''
            @ JSON_stringify (note_document JUndefined) @ '';'')"
proof -
  have dropped: "JSON_stringify (note_document (JFunction f)) = JSON_stringify (note_document JUndefined)" for f
    by (simp add: note_document_def JSON_stringify_def)
  have keep: "processConnectionDirective sample_collaborators models = models" for models
    by (simp add: sample_collaborators_def)
  have same: "this\<lparr>modelMap := modelMap this\<rparr> = this" for this :: AppSyncJSONVisitor
    by simp
  have js: "fst (generate sample_collaborators (note_visitor ''javascript'' t))
              = Inr (''export const schema = ''
                     @ JSON_stringify (generateMetaData sample_collaborators (note_visitor ''javascript'' t))
                     @ '';'')" for t
    by (simp add: generate_def Let_def keep generateJavaScriptMetaData_def)
      (simp add: note_visitor_def)
  have ts: "fst (generate sample_collaborators (note_visitor ''typescript'' t))
              = Inr (''import { Schema } from \"@aws-amplify/datastore\";'' @ [CHR 0x0A] @ [CHR 0x0A]
                     @ ''export const schema: Schema = ''
                     @ JSON_stringify (generateMetaData sample_collaborators (note_visitor ''typescript'' t))
                     @ '';'')" for t
    by (simp add: generate_def Let_def keep generateTypeScriptMetaData_def)
      (simp add: note_visitor_def)
  show ?thesis
    unfolding js ts note_visitor_document getType_inherited dropped
    by (simp add: note_document_def)
qed

text \<open>
  Hence no function from the emitted JSON text back to documents returns the document
  that was built for every state of the registries.
\<close>

theorem no_parser_recovers_every_document:
  "\<not> (\<exists>parse. \<forall>this.
         parse (generateJSONMetaData sample_collaborators this)
           = generateMetaData sample_collaborators this)"
proof
  assume "\<exists>parse. \<forall>this.
         parse (generateJSONMetaData sample_collaborators this)
           = generateMetaData sample_collaborators this"
  then obtain parse :: "string \<Rightarrow> jsval"
    where parse: "\<And>this. parse (generateJSONMetaData sample_collaborators this)
                          = generateMetaData sample_collaborators this"
    by blast
  have "JSON_stringify (note_document (JFunction ''constructor''))
          = JSON_stringify (note_document (JFunction ''toString''))"
    by (simp add: note_document_text)
  then have "generateJSONMetaData sample_collaborators (note_visitor ''javascript'' ''constructor'')
          = generateJSONMetaData sample_collaborators (note_visitor ''javascript'' ''toString'')"
    by (simp add: generateJSONMetaData_def note_visitor_document getType_inherited)
  with parse [of "note_visitor ''javascript'' ''constructor''"]
    parse [of "note_visitor ''javascript'' ''toString''"]
  have "generateMetaData sample_collaborators (note_visitor ''javascript'' ''constructor'')
          = generateMetaData sample_collaborators (note_visitor ''javascript'' ''toString'')"
    by simp
  then show False
    by (simp add: note_visitor_document getType_inherited note_document_def)
qed

end
